theory Spec2Isabelle
  imports Complex_Main "HOL-Library.Multiset"
begin

section \<open>JavaScript numbers\<close>

text \<open>
  A JavaScript \<open>number\<close> is modelled as an exact real extended with the three
  non-finite values a division can produce.  Arithmetic on finite values is exact:
  rounding and overflow are left out (they are added, for the texture selection only,
  by \<open>selectTextureIndex_rounded\<close> and \<open>binary64\<close> below), and the sign of zero is
  not tracked (a division of a non-zero value by zero takes the sign of the numerator).
\<close>

datatype number = Fin real | PInf | NInf | NaN

instantiation number :: "{zero,one,plus,minus,uminus,times,inverse,abs,ord}"
begin

definition zero_number :: number where
  "zero_number = Fin 0"

definition one_number :: number where
  "one_number = Fin 1"

fun plus_number :: "number \<Rightarrow> number \<Rightarrow> number" where
  "plus_number (Fin a) (Fin b) = Fin (a + b)"
| "plus_number NaN _ = NaN"
| "plus_number _ NaN = NaN"
| "plus_number PInf NInf = NaN"
| "plus_number NInf PInf = NaN"
| "plus_number PInf _ = PInf"
| "plus_number _ PInf = PInf"
| "plus_number NInf _ = NInf"
| "plus_number _ NInf = NInf"

fun uminus_number :: "number \<Rightarrow> number" where
  "uminus_number (Fin a) = Fin (- a)"
| "uminus_number PInf = NInf"
| "uminus_number NInf = PInf"
| "uminus_number NaN = NaN"

definition minus_number :: "number \<Rightarrow> number \<Rightarrow> number" where
  "minus_number a b = a + (- b)"

fun times_number :: "number \<Rightarrow> number \<Rightarrow> number" where
  "times_number (Fin a) (Fin b) = Fin (a * b)"
| "times_number NaN _ = NaN"
| "times_number _ NaN = NaN"
| "times_number PInf (Fin b) = (if b = 0 then NaN else if 0 < b then PInf else NInf)"
| "times_number NInf (Fin b) = (if b = 0 then NaN else if 0 < b then NInf else PInf)"
| "times_number (Fin a) PInf = (if a = 0 then NaN else if 0 < a then PInf else NInf)"
| "times_number (Fin a) NInf = (if a = 0 then NaN else if 0 < a then NInf else PInf)"
| "times_number PInf PInf = PInf"
| "times_number PInf NInf = NInf"
| "times_number NInf PInf = NInf"
| "times_number NInf NInf = PInf"

fun divide_number :: "number \<Rightarrow> number \<Rightarrow> number" where
  "divide_number (Fin a) (Fin b) =
     (if b = 0 then (if a = 0 then NaN else if 0 < a then PInf else NInf)
      else Fin (a / b))"
| "divide_number NaN _ = NaN"
| "divide_number _ NaN = NaN"
| "divide_number (Fin a) PInf = Fin 0"
| "divide_number (Fin a) NInf = Fin 0"
| "divide_number PInf (Fin b) = (if 0 \<le> b then PInf else NInf)"
| "divide_number NInf (Fin b) = (if 0 \<le> b then NInf else PInf)"
| "divide_number PInf PInf = NaN"
| "divide_number PInf NInf = NaN"
| "divide_number NInf PInf = NaN"
| "divide_number NInf NInf = NaN"

fun inverse_number :: "number \<Rightarrow> number" where
  "inverse_number (Fin a) = (if a = 0 then PInf else Fin (1 / a))"
| "inverse_number PInf = Fin 0"
| "inverse_number NInf = Fin 0"
| "inverse_number NaN = NaN"

fun abs_number :: "number \<Rightarrow> number" where
  "abs_number (Fin a) = Fin \<bar>a\<bar>"
| "abs_number PInf = PInf"
| "abs_number NInf = PInf"
| "abs_number NaN = NaN"

fun less_number :: "number \<Rightarrow> number \<Rightarrow> bool" where
  "less_number (Fin a) (Fin b) = (a < b)"
| "less_number NaN _ = False"
| "less_number _ NaN = False"
| "less_number _ NInf = False"
| "less_number PInf _ = False"
| "less_number NInf _ = True"
| "less_number (Fin a) PInf = True"

definition less_eq_number :: "number \<Rightarrow> number \<Rightarrow> bool" where
  "less_eq_number a b = (a < b \<or> (a = b \<and> a \<noteq> NaN))"

instance ..

end

text \<open>A natural number (an array size, a loop counter) read as a \<open>number\<close>.\<close>

definition num :: "nat \<Rightarrow> number" where
  "num n = Fin (real n)"

text \<open>\<open>Math.floor\<close>, \<open>Math.sqrt\<close>, \<open>Math.cos\<close>, \<open>Math.sin\<close>, \<open>Math.max\<close>, \<open>Math.min\<close>.\<close>

fun Math_floor :: "number \<Rightarrow> number" where
  "Math_floor (Fin a) = Fin (of_int \<lfloor>a\<rfloor>)"
| "Math_floor v = v"

fun Math_sqrt :: "number \<Rightarrow> number" where
  "Math_sqrt (Fin a) = (if a < 0 then NaN else Fin (sqrt a))"
| "Math_sqrt PInf = PInf"
| "Math_sqrt _ = NaN"

fun Math_cos :: "number \<Rightarrow> number" where
  "Math_cos (Fin a) = Fin (cos a)"
| "Math_cos _ = NaN"

fun Math_sin :: "number \<Rightarrow> number" where
  "Math_sin (Fin a) = Fin (sin a)"
| "Math_sin _ = NaN"

definition Math_max :: "number \<Rightarrow> number \<Rightarrow> number" where
  "Math_max a b = (if a = NaN \<or> b = NaN then NaN else if a < b then b else a)"

definition Math_min :: "number \<Rightarrow> number \<Rightarrow> number" where
  "Math_min a b = (if a = NaN \<or> b = NaN then NaN else if b < a then b else a)"

definition Math_PI :: number where
  "Math_PI = Fin pi"

text \<open>
  \<open>Math.atan2(y, x)\<close>: the angle of the point \<open>(x, y)\<close> in \<open>[-\<pi>, \<pi>]\<close>, with the
  values ECMAScript fixes at the origin and at infinity.
\<close>

definition atan2_real :: "real \<Rightarrow> real \<Rightarrow> real" where
  "atan2_real b a =
     (if 0 < a then arctan (b / a)
      else if a < 0 then (if 0 \<le> b then arctan (b / a) + pi else arctan (b / a) - pi)
      else if 0 < b then pi / 2
      else if b < 0 then - (pi / 2)
      else 0)"

fun Math_atan2 :: "number \<Rightarrow> number \<Rightarrow> number" where
  "Math_atan2 (Fin b) (Fin a) = Fin (atan2_real b a)"
| "Math_atan2 NaN _ = NaN"
| "Math_atan2 _ NaN = NaN"
| "Math_atan2 (Fin b) PInf = Fin 0"
| "Math_atan2 (Fin b) NInf = (if 0 \<le> b then Fin pi else Fin (- pi))"
| "Math_atan2 PInf (Fin a) = Fin (pi / 2)"
| "Math_atan2 NInf (Fin a) = Fin (- (pi / 2))"
| "Math_atan2 PInf PInf = Fin (pi / 4)"
| "Math_atan2 PInf NInf = Fin (3 * pi / 4)"
| "Math_atan2 NInf PInf = Fin (- (pi / 4))"
| "Math_atan2 NInf NInf = Fin (- (3 * pi / 4))"

text \<open>
  The remainder operator \<open>%\<close>: the result has the sign of the dividend, the quotient
  is truncated towards zero.
\<close>

definition trunc :: "real \<Rightarrow> int" where
  "trunc a = (if 0 \<le> a then \<lfloor>a\<rfloor> else \<lceil>a\<rceil>)"

fun js_rem :: "number \<Rightarrow> number \<Rightarrow> number" where
  "js_rem (Fin a) (Fin b) = (if b = 0 then NaN else Fin (a - b * of_int (trunc (a / b))))"
| "js_rem (Fin a) PInf = Fin a"
| "js_rem (Fin a) NInf = Fin a"
| "js_rem _ _ = NaN"

text \<open>
  \<open>v | 0\<close>: ToInt32 truncates towards zero and wraps modulo \<open>2^32\<close> into the signed
  32-bit range; the non-finite values become 0.
\<close>

fun ToInt32 :: "number \<Rightarrow> int" where
  "ToInt32 (Fin a) = (trunc a + 2147483648) mod 4294967296 - 2147483648"
| "ToInt32 _ = 0"

definition bitor0 :: "number \<Rightarrow> number" where
  "bitor0 v = Fin (of_int (ToInt32 v))"

text \<open>
  \<open>arr[i]\<close> for an array (or typed array) and a number \<open>i\<close>: the element when \<open>i\<close> is an
  integer index inside the array, \<open>undefined\<close> (here \<open>None\<close>) otherwise.
\<close>

fun arr_get :: "'a list \<Rightarrow> number \<Rightarrow> 'a option" where
  "arr_get xs (Fin a) =
     (if a = of_int \<lfloor>a\<rfloor> \<and> 0 \<le> a \<and> nat \<lfloor>a\<rfloor> < length xs then Some (xs ! nat \<lfloor>a\<rfloor>) else None)"
| "arr_get xs _ = None"

section \<open>Vectors\<close>

record Vector2Like =
  vx :: number
  vy :: number

record Vector3Like = Vector2Like +
  vz :: number

record RGBLike =
  rgb_r :: number
  rgb_g :: number
  rgb_b :: number

text \<open>Class \<open>Vec2\<close>: the methods mutate the receiver and return it.\<close>

definition Vec2 :: "number \<Rightarrow> number \<Rightarrow> Vector2Like" where
  "Vec2 a b = \<lparr>vx = a, vy = b\<rparr>"

definition Vec2_of :: "'a Vector2Like_scheme \<Rightarrow> Vector2Like" where
  "Vec2_of v = \<lparr>vx = vx v, vy = vy v\<rparr>"

definition Vec2_add :: "Vector2Like \<Rightarrow> 'a Vector2Like_scheme \<Rightarrow> Vector2Like" where
  "Vec2_add v other = \<lparr>vx = vx v + vx other, vy = vy v + vy other\<rparr>"

definition Vec2_sub :: "Vector2Like \<Rightarrow> 'a Vector2Like_scheme \<Rightarrow> Vector2Like" where
  "Vec2_sub v other = \<lparr>vx = vx v - vx other, vy = vy v - vy other\<rparr>"

definition Vec2_scale :: "Vector2Like \<Rightarrow> number \<Rightarrow> Vector2Like" where
  "Vec2_scale v k = \<lparr>vx = vx v * k, vy = vy v * k\<rparr>"




definition Vec2_rotate :: "Vector2Like \<Rightarrow> number \<Rightarrow> Vector2Like" where
  "Vec2_rotate v angle =
     (let c = Math_cos angle;
          s = Math_sin angle
      in \<lparr>vx = c * vx v - s * vy v, vy = s * vx v + c * vy v\<rparr>)"



section \<open>Tilemap and the ray queries\<close>

record Tilemap =
  width :: nat
  height :: nat
  tmap :: "number list"

record 'v Ray =
  startPosition :: 'v
  direction :: 'v

record RayTilemapIntersectionResult =
  mapPosition :: Vector2Like
  side :: nat
  hitPosition :: Vector2Like
  normal :: Vector2Like
  perpendicularDistance :: number

text \<open>
  The \<open>while (true)\<close> loop of \<open>rayTilemapIntersection\<close>.  The loop state is
  \<open>(side_dist_x, side_dist_y, map_pos_x, map_pos_y)\<close>.  One iteration either breaks
  (\<open>Inl\<close>) with the cell reached and the \<open>side\<close> just set, or continues (\<open>Inr\<close>) with
  the new state.  The test \<open>map[i] !== 0\<close> also succeeds when the read is out of
  range (\<open>undefined !== 0\<close>).
\<close>

type_synonym dda_state = "number \<times> number \<times> number \<times> number"

definition dda_step ::
  "number list \<Rightarrow> number \<Rightarrow> number \<times> number \<Rightarrow> number \<times> number \<Rightarrow> dda_state \<Rightarrow>
   (number \<times> number \<times> nat) + dda_state"
where
  "dda_step cells mapWidth step delta st =
     (case st of (side_dist_x, side_dist_y, map_pos_x, map_pos_y) \<Rightarrow>
        if side_dist_x < side_dist_y then
          (let side_dist_x' = side_dist_x + fst delta;
               map_pos_x' = map_pos_x + fst step
           in if arr_get cells (map_pos_y * mapWidth + map_pos_x') \<noteq> Some (Fin 0)
              then Inl (map_pos_x', map_pos_y, 0)
              else Inr (side_dist_x', side_dist_y, map_pos_x', map_pos_y))
        else
          (let side_dist_y' = side_dist_y + snd delta;
               map_pos_y' = map_pos_y + snd step
           in if arr_get cells (map_pos_y' * mapWidth + map_pos_x) \<noteq> Some (Fin 0)
              then Inl (map_pos_x, map_pos_y', 1)
              else Inr (side_dist_x, side_dist_y', map_pos_x, map_pos_y')))"

text \<open>A loop that never breaks is the value \<open>None\<close>.\<close>

partial_function (option) dda_loop ::
  "number list \<Rightarrow> number \<Rightarrow> number \<times> number \<Rightarrow> number \<times> number \<Rightarrow> dda_state \<Rightarrow>
   (number \<times> number \<times> nat) option"
where
  "dda_loop cells mapWidth step delta st =
     (case dda_step cells mapWidth step delta st of
        Inl res \<Rightarrow> Some res
      | Inr st' \<Rightarrow> dda_loop cells mapWidth step delta st')"

definition rayTilemapIntersection ::
  "'a Vector2Like_scheme Ray \<Rightarrow> Tilemap \<Rightarrow> RayTilemapIntersectionResult option"
where
  "rayTilemapIntersection ray tilemap =
     (let mapWidth = num (Tilemap.width tilemap);
          cells = tmap tilemap;
          sx = vx (startPosition ray);
          sy = vy (startPosition ray);
          map_pos_x0 = Math_floor sx;
          map_pos_y0 = Math_floor sy;
          ray_dir_x = vx (direction ray);
          ray_dir_y = vy (direction ray);
          step_x = (if Fin 0 \<le> ray_dir_x then Fin 1 else Fin (- 1));
          step_y = (if Fin 0 \<le> ray_dir_y then Fin 1 else Fin (- 1));
          delta_dist_x = \<bar>Fin 1 / ray_dir_x\<bar>;
          delta_dist_y = \<bar>Fin 1 / ray_dir_y\<bar>;
          side_dist_x0 =
            (if Fin 0 \<le> ray_dir_x then map_pos_x0 + Fin 1 - sx else sx - map_pos_x0)
              * delta_dist_x;
          side_dist_y0 =
            (if Fin 0 \<le> ray_dir_y then map_pos_y0 + Fin 1 - sy else sy - map_pos_y0)
              * delta_dist_y
      in case dda_loop cells mapWidth (step_x, step_y) (delta_dist_x, delta_dist_y)
                (side_dist_x0, side_dist_y0, map_pos_x0, map_pos_y0) of
           None \<Rightarrow> None
         | Some (map_pos_x, map_pos_y, side_hit) \<Rightarrow>
             (let perpendicular_distance =
                    (if side_hit = 0
                     then (map_pos_x - sx + (Fin 1 - step_x) / Fin 2) / ray_dir_x
                     else (map_pos_y - sy + (Fin 1 - step_y) / Fin 2) / ray_dir_y)
              in Some \<lparr>mapPosition = \<lparr>vx = map_pos_x, vy = map_pos_y\<rparr>,
                       side = side_hit,
                       hitPosition =
                         \<lparr>vx = sx + perpendicular_distance * ray_dir_x,
                          vy = sy + perpendicular_distance * ray_dir_y\<rparr>,
                       normal =
                         \<lparr>vx = (if side_hit = 0 then step_x * Fin (- 1) else Fin 0),
                          vy = (if side_hit = 1 then step_y * Fin (- 1) else Fin 0)\<rparr>,
                       perpendicularDistance = perpendicular_distance\<rparr>))"


record RayTilemapCeilingFloorIntersectionResult =
  position :: Vector3Like
  rayScale :: number
  normal :: Vector3Like


section \<open>Camera\<close>

text \<open>
  Class \<open>Camera\<close>.  The private fields \<open>_angle\<close>, \<open>_dir\<close>, \<open>_plane\<close> and
  \<open>_aspectRatio\<close> carry the prefix \<open>p_\<close>; the getters are the functions
  \<open>Camera_angle\<close>, \<open>Camera_direction\<close>, \<open>Camera_plane\<close> and \<open>Camera_aspectRatio\<close>.
\<close>

record Camera =
  position :: Vector2Like
  p_angle :: number
  p_dir :: Vector2Like
  p_plane :: Vector2Like
  p_aspectRatio :: number

definition Camera_angle :: "Camera \<Rightarrow> number" where
  "Camera_angle cam = p_angle cam"

definition Camera_direction :: "Camera \<Rightarrow> Vector2Like" where
  "Camera_direction cam = p_dir cam"

definition Camera_plane :: "Camera \<Rightarrow> Vector2Like" where
  "Camera_plane cam = p_plane cam"

definition Camera_aspectRatio :: "Camera \<Rightarrow> number" where
  "Camera_aspectRatio cam = p_aspectRatio cam"

definition Camera_set_aspectRatio :: "Camera \<Rightarrow> number \<Rightarrow> Camera" where
  "Camera_set_aspectRatio cam newAspectRatio =
     (let cam1 = cam\<lparr>p_aspectRatio := newAspectRatio\<rparr>
      in cam1\<lparr>p_plane :=
           Vec2_rotate (Vec2 (p_aspectRatio cam1 / Fin 2) (Fin 0)) (Camera_angle cam1)\<rparr>)"

definition Camera_rotateTo :: "Camera \<Rightarrow> number \<Rightarrow> Camera" where
  "Camera_rotateTo cam ang =
     (let cam1 = cam\<lparr>p_dir := Vec2_rotate (Vec2 (Fin 0) (Fin (- 1))) ang\<rparr>
      in cam1\<lparr>p_plane :=
           Vec2_rotate (Vec2 (Camera_aspectRatio cam1 / Fin 2) (Fin 0)) ang\<rparr>)"

text \<open>
  The constructor assigns \<open>position\<close>, \<open>_angle\<close> and \<open>_aspectRatio\<close> and then calls
  \<open>rotateTo\<close>, which assigns \<open>_dir\<close> and \<open>_plane\<close>; before that call the two fields
  are not yet assigned (here: \<open>NaN\<close> vectors, never read).
\<close>

definition new_Camera :: "number \<Rightarrow> number \<Rightarrow> number \<Rightarrow> number \<Rightarrow> Camera" where
  "new_Camera px py ang aspect =
     Camera_rotateTo
       \<lparr>position = Vec2 px py, p_angle = ang, p_dir = Vec2 NaN NaN,
        p_plane = Vec2 NaN NaN, p_aspectRatio = aspect\<rparr> ang"

definition Camera_rotate :: "Camera \<Rightarrow> number \<Rightarrow> Camera" where
  "Camera_rotate cam ang =
     (let cam1 = cam\<lparr>p_dir := Vec2_rotate (p_dir cam) ang\<rparr>;
          cam2 = cam1\<lparr>p_plane := Vec2_rotate (p_plane cam1) ang\<rparr>
      in cam2\<lparr>p_angle := p_angle cam2 + ang\<rparr>)"

definition Camera_moveLocal :: "Camera \<Rightarrow> number \<Rightarrow> number \<Rightarrow> Camera" where
  "Camera_moveLocal cam dx dy =
     (let xOffset = Vec2_rotate (Vec2 (- dx) (Fin 0)) (Camera_angle cam);
          yOffset = \<lparr>vx = vx (p_dir cam) * dy, vy = vy (p_dir cam) * dy\<rparr>;
          pos = Camera.position cam;
          pos1 = pos\<lparr>vx := vx pos + (vx xOffset + vx yOffset)\<rparr>;
          pos2 = pos1\<lparr>vy := vy pos1 + (vy xOffset + vy yOffset)\<rparr>
      in cam\<lparr>Camera.position := pos2\<rparr>)"


section \<open>Textures, lights, fog, billboards\<close>

text \<open>
  \<open>Texture\<close> and \<open>FrameBuffer\<close> have the same shape: a size and a
  \<open>Uint8ClampedArray\<close> of bytes.
\<close>

record Texture =
  width :: nat
  height :: nat
  data :: "nat list"

type_synonym FrameBuffer = Texture

record Light =
  direction :: Vector3Like
  color :: RGBLike
  ambientColor :: RGBLike

record Fog =
  near :: number
  far :: number
  color :: RGBLike

record Billboard =
  position :: Vector2Like
  scale :: Vector2Like
  vOffset :: number
  angle :: number
  textures :: "Texture list"

text \<open>
  Reading a byte of a typed array as a number: an out-of-range read is \<open>undefined\<close>,
  which arithmetic turns into \<open>NaN\<close>.
\<close>

definition byte_num :: "nat option \<Rightarrow> number" where
  "byte_num v = (case v of None \<Rightarrow> NaN | Some n \<Rightarrow> num n)"

text \<open>
  Storing a number into a \<open>Uint8ClampedArray\<close>: \<open>NaN\<close> becomes 0, the value is
  clamped to \<open>[0, 255]\<close> and rounded to the nearest integer, ties to even.
\<close>

definition round_half_even :: "real \<Rightarrow> int" where
  "round_half_even a =
     (let f = \<lfloor>a\<rfloor>
      in if a - of_int f < 1 / 2 then f
         else if 1 / 2 < a - of_int f then f + 1
         else if even f then f else f + 1)"

fun ToUint8Clamp :: "number \<Rightarrow> nat" where
  "ToUint8Clamp (Fin a) = (if a \<le> 0 then 0 else if 255 \<le> a then 255 else nat (round_half_even a))"
| "ToUint8Clamp PInf = 255"
| "ToUint8Clamp _ = 0"

text \<open>\<open>arr[i] = v\<close> on a typed array: a store outside the array is ignored.\<close>

fun rgba_set :: "nat list \<Rightarrow> number \<Rightarrow> number \<Rightarrow> nat list" where
  "rgba_set xs (Fin a) v =
     (if a = of_int \<lfloor>a\<rfloor> \<and> 0 \<le> a \<and> nat \<lfloor>a\<rfloor> < length xs
      then xs[nat \<lfloor>a\<rfloor> := ToUint8Clamp v] else xs)"
| "rgba_set xs _ v = xs"

text \<open>
  The values of the loop variable of \<open>for (let y = a; y < b; y++)\<close>.  The loop does not
  end when \<open>a < b\<close> holds and one of the bounds is infinite.
\<close>

definition for_range :: "number \<Rightarrow> number \<Rightarrow> number list option" where
  "for_range a b =
     (if a < b then
        (case (a, b) of
           (Fin s, Fin e) \<Rightarrow> Some (map (\<lambda>k. Fin (s + real k)) [0 ..< nat \<lceil>e - s\<rceil>])
         | _ \<Rightarrow> None)
      else Some [])"

section \<open>Raycaster\<close>

datatype error = TypeError | RangeError

datatype BufferType = Color | Depth

record Raycaster =
  width :: nat
  height :: nat
  rgba :: "nat list"
  zBuffer :: "number option list"

text \<open>
  The constructor: \<open>new Array<number>(this.width)\<close> is an array of \<open>width\<close> holes,
  each read as \<open>undefined\<close> (here \<open>None\<close>).
\<close>

definition new_Raycaster :: "FrameBuffer \<Rightarrow> Raycaster" where
  "new_Raycaster frameBuffer =
     \<lparr>width = Texture.width frameBuffer, height = Texture.height frameBuffer,
      rgba = data frameBuffer, zBuffer = replicate (Texture.width frameBuffer) None\<rparr>"

text \<open>\<open>arr[i] = v\<close> on an ordinary array: a store past the end extends the array.\<close>

definition array_set :: "'a option list \<Rightarrow> nat \<Rightarrow> 'a \<Rightarrow> 'a option list" where
  "array_set xs i v =
     (if i < length xs then xs[i := Some v]
      else xs @ replicate (i - length xs) None @ [Some v])"

definition Number_MAX_VALUE :: number where
  "Number_MAX_VALUE = Fin ((2 - 1 / 2 ^ 52) * 2 ^ 1023)"

text \<open>
  The depth loop of \<open>clear\<close>:
  \<open>for (let i = 0; i < this.width; i++) { this.zBuffer[i++] = Number.MAX_VALUE; }\<close>.
  The index is incremented in the body and again in the loop header.
\<close>

function clear_depth_loop :: "nat \<Rightarrow> nat \<Rightarrow> number option list \<Rightarrow> number option list" where
  "clear_depth_loop i w zb =
     (if i < w then clear_depth_loop (i + 1 + 1) w (array_set zb i Number_MAX_VALUE) else zb)"
  by pat_completeness auto
termination
  by (relation "measure (\<lambda>(i, w, zb). w - i)") auto

text \<open>
  The colour branch views the buffer as a \<open>Uint32Array\<close>, which raises a
  \<open>RangeError\<close> unless the byte length is a multiple of 4, and zeroes every word.
\<close>

definition clear_target :: "Raycaster \<Rightarrow> BufferType \<Rightarrow> error + Raycaster" where
  "clear_target rc t =
     (case t of
        Color \<Rightarrow>
          (if length (rgba rc) mod 4 \<noteq> 0 then Inl RangeError
           else Inr (rc\<lparr>rgba := replicate (length (rgba rc)) 0\<rparr>))
      | Depth \<Rightarrow>
          Inr (rc\<lparr>zBuffer := clear_depth_loop 0 (Raycaster.width rc) (zBuffer rc)\<rparr>))"

fun clear_targets :: "Raycaster \<Rightarrow> BufferType list \<Rightarrow> error + Raycaster" where
  "clear_targets rc [] = Inr rc"
| "clear_targets rc (t # ts) =
     (case clear_target rc t of Inl e \<Rightarrow> Inl e | Inr rc' \<Rightarrow> clear_targets rc' ts)"

definition clear :: "Raycaster \<Rightarrow> BufferType list \<Rightarrow> error + Raycaster" where
  "clear rc targets =
     clear_targets rc (if 0 < length targets then targets else [Color, Depth])"


text \<open>
  A drawing routine either returns the updated renderer (\<open>Some (Inr rc)\<close>), throws
  (\<open>Some (Inl e)\<close>) or does not return (\<open>None\<close>).
\<close>

type_synonym 'a result = "(error + 'a) option"

definition bind_result :: "'a result \<Rightarrow> ('a \<Rightarrow> 'b result) \<Rightarrow> 'b result" where
  "bind_result m f =
     (case m of None \<Rightarrow> None | Some (Inl e) \<Rightarrow> Some (Inl e) | Some (Inr a) \<Rightarrow> f a)"

fun for_each :: "('s \<Rightarrow> 'a \<Rightarrow> 's result) \<Rightarrow> 's \<Rightarrow> 'a list \<Rightarrow> 's result" where
  "for_each body st [] = Some (Inr st)"
| "for_each body st (a # as) = bind_result (body st a) (\<lambda>st'. for_each body st' as)"

subsection \<open>Directional texture of a billboard\<close>

definition selectTextureIndex :: "Billboard \<Rightarrow> Camera \<Rightarrow> number" where
  "selectTextureIndex billboard camera =
     (let TAU = Math_PI * Fin 2;
          angleRange = TAU / num (length (textures billboard));
          dx = vx (Camera.position camera) - vx (Billboard.position billboard);
          dy = vy (Camera.position camera) - vy (Billboard.position billboard);
          angle0 = js_rem (Math_atan2 dy dx - (Billboard.angle billboard - angleRange / Fin 2)) TAU;
          angle1 = js_rem (angle0 + TAU) TAU
      in Math_floor (angle1 / angleRange))"

definition selectTextureByCamera :: "Billboard \<Rightarrow> Camera \<Rightarrow> Texture option" where
  "selectTextureByCamera billboard camera =
     arr_get (textures billboard) (selectTextureIndex billboard camera)"

text \<open>
  The same computation in double precision.  Every arithmetic result is passed
  through a rounding function \<open>rnd\<close>, and \<open>PI\<close> is the value of \<open>Math.PI\<close>; the remainder
  \<open>%\<close> and \<open>Math.floor\<close> are exact in binary64.  With the identity for \<open>rnd\<close> and \<open>\<pi>\<close> for
  \<open>PI\<close> this is \<open>selectTextureIndex\<close>.
\<close>

definition selectTextureIndex_rounded ::
  "(number \<Rightarrow> number) \<Rightarrow> number \<Rightarrow> Billboard \<Rightarrow> Camera \<Rightarrow> number"
where
  "selectTextureIndex_rounded rnd PI billboard camera =
     (let TAU = rnd (PI * Fin 2);
          angleRange = rnd (TAU / num (length (textures billboard)));
          dx = rnd (vx (Camera.position camera) - vx (Billboard.position billboard));
          dy = rnd (vy (Camera.position camera) - vy (Billboard.position billboard));
          angle0 = js_rem (rnd (rnd (Math_atan2 dy dx)
                                - rnd (Billboard.angle billboard - rnd (angleRange / Fin 2))))
                     TAU;
          angle1 = js_rem (rnd (angle0 + TAU)) TAU
      in Math_floor (rnd (angle1 / angleRange)))"

text \<open>
  Rounding to binary64, to nearest with ties to even: a non-zero real in the binade
  \<open>[2^e, 2^(e+1))\<close> is rounded to a multiple of \<open>2^(e-52)\<close> (of \<open>2^(-1074)\<close> below the
  normal range), and a result of magnitude \<open>2^1024\<close> or more is infinite.
\<close>

definition binary64 :: "number \<Rightarrow> number" where
  "binary64 v =
     (case v of
        Fin x \<Rightarrow>
          (if x = 0 then Fin 0
           else
             (let e = max \<lfloor>log 2 \<bar>x\<bar>\<rfloor> (- 1022);
                  u = 2 powr (of_int e - 52);
                  y = of_int (round_half_even (x / u)) * u
              in if 2 ^ 1024 \<le> \<bar>y\<bar> then (if 0 < x then PInf else NInf) else Fin y))
      | _ \<Rightarrow> v)"

text \<open>\<open>Math.PI\<close>, the double nearest to \<open>\<pi>\<close>: \<open>0x400921FB54442D18\<close>.\<close>

definition Math_PI_binary64 :: number where
  "Math_PI_binary64 = Fin (884279719003555 / 2 ^ 48)"

subsection \<open>Shading terms\<close>

text \<open>\<open>light.color * intensity + light.ambientColor\<close>, per channel.\<close>

definition lit_color :: "Light \<Rightarrow> number \<Rightarrow> RGBLike" where
  "lit_color light intensity =
     \<lparr>rgb_r = rgb_r (Light.color light) * intensity + rgb_r (ambientColor light),
      rgb_g = rgb_g (Light.color light) * intensity + rgb_g (ambientColor light),
      rgb_b = rgb_b (Light.color light) * intensity + rgb_b (ambientColor light)\<rparr>"

subsection \<open>Wall columns\<close>

text \<open>
  One iteration of the unshaded loop of \<open>draw_wall_vline\<close>; the state is the frame
  buffer and the running texture coordinate \<open>v\<close>.
\<close>

definition wall_pixel_plain ::
  "Texture \<Rightarrow> number \<Rightarrow> number \<Rightarrow> number \<Rightarrow> number \<Rightarrow> nat list \<times> number \<Rightarrow> number \<Rightarrow>
   nat list \<times> number"
where
  "wall_pixel_plain texture w x U dv st y =
     (case st of (buf, v) \<Rightarrow>
        (let V = bitor0 (num (Texture.height texture) * v);
             i = (w * y + x) * Fin 4;
             j = (num (Texture.width texture) * V + U) * Fin 4;
             buf0 = rgba_set buf (i + Fin 0) (byte_num (arr_get (data texture) (j + Fin 0)));
             buf1 = rgba_set buf0 (i + Fin 1) (byte_num (arr_get (data texture) (j + Fin 1)));
             buf2 = rgba_set buf1 (i + Fin 2) (byte_num (arr_get (data texture) (j + Fin 2)));
             buf3 = rgba_set buf2 (i + Fin 3) (byte_num (arr_get (data texture) (j + Fin 3)))
         in (buf3, v + dv)))"

text \<open>One iteration of the shaded loop of \<open>draw_wall_vline\<close>.\<close>

definition wall_pixel_shaded ::
  "Texture \<Rightarrow> number \<Rightarrow> number \<Rightarrow> number \<Rightarrow> number \<Rightarrow>
   number \<times> number \<times> number \<Rightarrow> number \<times> number \<times> number \<Rightarrow>
   nat list \<times> number \<Rightarrow> number \<Rightarrow> nat list \<times> number"
where
  "wall_pixel_shaded texture w x U dv lightRGB fogRGB st y =
     (case (lightRGB, fogRGB, st) of ((cr, cg, cb), (fogR, fogG, fogB), (buf, v)) \<Rightarrow>
        (let V = bitor0 (num (Texture.height texture) * v);
             i = (w * y + x) * Fin 4;
             j = (num (Texture.width texture) * V + U) * Fin 4;
             buf0 = rgba_set buf (i + Fin 0)
                      (fogR + byte_num (arr_get (data texture) (j + Fin 0)) * cr);
             buf1 = rgba_set buf0 (i + Fin 1)
                      (fogG + byte_num (arr_get (data texture) (j + Fin 1)) * cg);
             buf2 = rgba_set buf1 (i + Fin 2)
                      (fogB + byte_num (arr_get (data texture) (j + Fin 2)) * cb);
             buf3 = rgba_set buf2 (i + Fin 3) (byte_num (arr_get (data texture) (j + Fin 3)))
         in (buf3, v + dv)))"

text \<open>
  The light and fog terms of the shaded branch of \<open>draw_wall_vline\<close>: the channel
  factors \<open>(r, g, b)\<close> and the additive terms \<open>(fogR, fogG, fogB)\<close>.  The additive
  terms are initialised to 1 and only reassigned when a fog is given.
\<close>

definition wall_shade_terms ::
  "RGBLike option \<Rightarrow> Fog option \<Rightarrow> number \<Rightarrow>
   (number \<times> number \<times> number) \<times> (number \<times> number \<times> number)"
where
  "wall_shade_terms lightColor fog distance =
     (let (cr, cg, cb) =
            (case lightColor of
               Some lc \<Rightarrow> (rgb_r lc, rgb_g lc, rgb_b lc)
             | None \<Rightarrow> (Fin 1, Fin 1, Fin 1))
      in case fog of
           None \<Rightarrow> ((cr, cg, cb), (Fin 1, Fin 1, Fin 1))
         | Some fg \<Rightarrow>
             (let f = Math_min (Fin 1)
                        (Math_max (Fin 0) ((far fg - distance) / (far fg - near fg)))
              in ((cr * f, cg * f, cb * f),
                  (rgb_r (Fog.color fg) * (Fin 1 - f) * Fin 255,
                   rgb_g (Fog.color fg) * (Fin 1 - f) * Fin 255,
                   rgb_b (Fog.color fg) * (Fin 1 - f) * Fin 255))))"

definition draw_wall_vline ::
  "Raycaster \<Rightarrow> Texture \<Rightarrow> number \<Rightarrow> number \<Rightarrow> number \<Rightarrow> number \<Rightarrow>
   RGBLike option \<Rightarrow> Fog option \<Rightarrow> number \<Rightarrow> Raycaster option"
where
  "draw_wall_vline rc texture x U vstart vend lightColor fog distance =
     (let w = num (Raycaster.width rc);
          dv = Fin 1 / (vend - vstart);
          v0 = (if vstart < Fin 0 then - vstart * dv else Fin 0);
          vstart' = Math_max vstart (Fin 0);
          vend' = Math_min vend (num (Raycaster.height rc))
      in case for_range vstart' vend' of
           None \<Rightarrow> None
         | Some ys \<Rightarrow>
             (if lightColor = None \<and> fog = None then
                Some (rc\<lparr>rgba := fst (fold (\<lambda>y st. wall_pixel_plain texture w x U dv st y)
                                          ys (rgba rc, v0))\<rparr>)
              else
                (let (lightRGB, fogRGB) = wall_shade_terms lightColor fog distance
                 in Some (rc\<lparr>rgba :=
                      fst (fold (\<lambda>y st. wall_pixel_shaded texture w x U dv lightRGB fogRGB st y)
                             ys (rgba rc, v0))\<rparr>))))"

text \<open>The ray of screen column \<open>x\<close> of a frame \<open>w\<close> pixels wide.\<close>

definition column_ray :: "Camera \<Rightarrow> nat \<Rightarrow> nat \<Rightarrow> Vector2Like Ray" where
  "column_ray camera w x =
     (let camera_x = (num x / num w) * Fin 2 - Fin 1;
          ray_dir_x = vx (Camera_direction camera) + vx (Camera_plane camera) * camera_x;
          ray_dir_y = vy (Camera_direction camera) + vy (Camera_plane camera) * camera_x
      in \<lparr>startPosition = Camera.position camera,
          direction = \<lparr>vx = ray_dir_x, vy = ray_dir_y\<rparr>\<rparr>)"

text \<open>
  One iteration of the column loop of \<open>renderWall\<close>.  \<open>textures[tex_id]\<close> is
  \<open>undefined\<close> when the cell code minus one is no index of the array, and reading
  \<open>texture.width\<close> then throws a \<open>TypeError\<close>.
\<close>

definition renderWall_column ::
  "Tilemap \<Rightarrow> Texture list \<Rightarrow> Light option \<Rightarrow> Fog option \<Rightarrow> Camera \<Rightarrow>
   Raycaster \<Rightarrow> nat \<Rightarrow> Raycaster result"
where
  "renderWall_column tilemap texs light fog camera rc x =
     (let mapWidth = num (Tilemap.width tilemap);
          cells = tmap tilemap;
          ray = column_ray camera (Raycaster.width rc) x;
          ray_dir_x = vx (Ray.direction ray);
          ray_dir_y = vy (Ray.direction ray)
      in case rayTilemapIntersection ray tilemap of
           None \<Rightarrow> None
         | Some res \<Rightarrow>
             (let mapPos = mapPosition res;
                  hitPos = hitPosition res;
                  normal2d = RayTilemapIntersectionResult.normal res;
                  perp = perpendicularDistance res;
                  h = Math_floor (num (Raycaster.height rc) / perp);
                  vstart = Math_floor ((num (Raycaster.height rc) - h) / Fin 2);
                  vend = Math_floor ((num (Raycaster.height rc) + h) / Fin 2);
                  wallPos = (if side res = 0 then vy hitPos else vx hitPos);
                  u = wallPos - bitor0 wallPos;
                  tex_id = (case arr_get cells (vy mapPos * mapWidth + vx mapPos) of
                              None \<Rightarrow> NaN | Some c \<Rightarrow> c) - Fin 1
              in case arr_get texs tex_id of
                   None \<Rightarrow> Some (Inl TypeError)
                 | Some texture \<Rightarrow>
                     (let U0 = bitor0 (u * num (Texture.width texture));
                          U = (if (side res = 0 \<and> ray_dir_x < Fin 0)
                                  \<or> (side res = 1 \<and> Fin 0 < ray_dir_y)
                               then num (Texture.width texture) - U0 - Fin 1 else U0);
                          lightColor =
                            (case light of
                               None \<Rightarrow> None
                             | Some l \<Rightarrow>
                                 Some (lit_color l
                                   (Math_max (Fin 0)
                                      (vx (Light.direction l) * vx normal2d
                                       + vy (Light.direction l) * vy normal2d))))
                      in case draw_wall_vline rc texture (num x) U vstart vend
                                lightColor fog perp of
                           None \<Rightarrow> None
                         | Some rc' \<Rightarrow>
                             Some (Inr (rc'\<lparr>zBuffer := array_set (zBuffer rc') x perp\<rparr>)))))"

definition renderWall ::
  "Raycaster \<Rightarrow> Tilemap \<Rightarrow> Texture list \<Rightarrow> Light option \<Rightarrow> Fog option \<Rightarrow> Camera \<Rightarrow>
   Raycaster result"
where
  "renderWall rc tilemap texs light fog camera =
     for_each (renderWall_column tilemap texs light fog camera) rc [0 ..< Raycaster.width rc]"


subsection \<open>Billboards\<close>

text \<open>
  The light and fog terms of the shaded branch of \<open>draw_billboard_vline\<close>: the
  channel factors \<open>(fR, fG, fB)\<close> and the additive terms \<open>(fogR, fogG, fogB)\<close>.
\<close>

definition billboard_shade_terms ::
  "RGBLike option \<Rightarrow> Fog option \<Rightarrow> number \<Rightarrow>
   (number \<times> number \<times> number) \<times> (number \<times> number \<times> number)"
where
  "billboard_shade_terms lightColor fog distance =
     (let (cr, cg, cb) =
            (case lightColor of
               Some lc \<Rightarrow> (rgb_r lc, rgb_g lc, rgb_b lc)
             | None \<Rightarrow> (Fin 1, Fin 1, Fin 1))
      in case fog of
           Some fg \<Rightarrow>
             (let f = Math_min (Fin 1)
                        (Math_max (Fin 0) ((far fg - distance) / (far fg - near fg)));
                  oneMinusF = Fin 1 - f
              in ((f * cr, f * cg, f * cb),
                  (rgb_r (Fog.color fg) * oneMinusF * Fin 255,
                   rgb_g (Fog.color fg) * oneMinusF * Fin 255,
                   rgb_b (Fog.color fg) * oneMinusF * Fin 255)))
         | None \<Rightarrow> ((cr, cg, cb), (Fin 0, Fin 0, Fin 0)))"

text \<open>
  One iteration of the row loop of \<open>draw_billboard_vline\<close>.  The shading is
  \<open>None\<close> in the unshaded branch.  A texel whose alpha is 0, or that lies outside
  the texture (\<open>undefined > 0\<close> is false), is skipped.
\<close>

definition billboard_pixel ::
  "Raycaster \<Rightarrow> Texture \<Rightarrow> number \<Rightarrow> number \<Rightarrow> number \<Rightarrow> number \<Rightarrow>
   ((number \<times> number \<times> number) \<times> (number \<times> number \<times> number)) option \<Rightarrow>
   nat list \<Rightarrow> number \<Rightarrow> nat list"
where
  "billboard_pixel rc texture x texX drawOffsetY billboardHeight shading buf y =
     (let v = (y - drawOffsetY - ((num (Raycaster.height rc) - billboardHeight) / Fin 2))
                / billboardHeight;
          texY = bitor0 (v * num (Texture.height texture));
          i = (num (Raycaster.width rc) * y + x) * Fin 4;
          j = (num (Texture.width texture) * texY + texX) * Fin 4
      in if Fin 0 < byte_num (arr_get (data texture) (j + Fin 3)) then
           (case shading of
              None \<Rightarrow>
                (let buf0 = rgba_set buf i (byte_num (arr_get (data texture) j));
                     buf1 = rgba_set buf0 (i + Fin 1)
                              (byte_num (arr_get (data texture) (j + Fin 1)));
                     buf2 = rgba_set buf1 (i + Fin 1 + Fin 1)
                              (byte_num (arr_get (data texture) (j + Fin 1 + Fin 1)))
                 in rgba_set buf2 (i + Fin 1 + Fin 1 + Fin 1) (Fin 255))
            | Some ((fR, fG, fB), (fogR, fogG, fogB)) \<Rightarrow>
                (let buf0 = rgba_set buf i
                              (fogR + byte_num (arr_get (data texture) j) * fR);
                     buf1 = rgba_set buf0 (i + Fin 1)
                              (fogG + byte_num (arr_get (data texture) (j + Fin 1)) * fG);
                     buf2 = rgba_set buf1 (i + Fin 1 + Fin 1)
                              (fogB + byte_num (arr_get (data texture) (j + Fin 1 + Fin 1)) * fB)
                 in rgba_set buf2 (i + Fin 1 + Fin 1 + Fin 1) (Fin 255)))
         else buf)"

text \<open>
  \<open>draw_billboard_vline\<close>.  The texture is the result of \<open>selectTextureByCamera\<close>;
  when that is \<open>undefined\<close>, reading \<open>texture.data\<close> throws a \<open>TypeError\<close>.
\<close>

definition draw_billboard_vline ::
  "Raycaster \<Rightarrow> Texture option \<Rightarrow> number \<Rightarrow> number \<Rightarrow> number \<Rightarrow> number \<Rightarrow> number \<Rightarrow>
   number \<Rightarrow> number \<Rightarrow> RGBLike option \<Rightarrow> Fog option \<Rightarrow> number \<Rightarrow> Raycaster result"
where
  "draw_billboard_vline rc texture_opt x drawStartY drawEndY billboardWidth billboardHeight
     billboardScreenX drawOffsetY lightColor fog distance =
     (case texture_opt of
        None \<Rightarrow> Some (Inl TypeError)
      | Some texture \<Rightarrow>
          (let u = (x - (billboardScreenX - billboardWidth / Fin 2)) / billboardWidth;
               texX = bitor0 (u * num (Texture.width texture));
               shading = (if lightColor = None \<and> fog = None then None
                          else Some (billboard_shade_terms lightColor fog distance))
           in case for_range drawStartY drawEndY of
                None \<Rightarrow> None
              | Some ys \<Rightarrow>
                  Some (Inr (rc\<lparr>rgba :=
                    fold (\<lambda>y buf. billboard_pixel rc texture x texX drawOffsetY
                                     billboardHeight shading buf y)
                         ys (rgba rc)\<rparr>))))"

text \<open>
  The sort of \<open>renderBillboard\<close>: \<open>Array.prototype.sort\<close> with the comparator
  \<open>(a, b) => b.distance - a.distance\<close>, modelled as a stable insertion sort (the
  language standard requires stability; a comparator result of \<open>NaN\<close> counts as 0).
\<close>

definition billboard_distance :: "Camera \<Rightarrow> Billboard \<Rightarrow> number" where
  "billboard_distance camera billboard =
     (let dx = vx (Billboard.position billboard) - vx (Camera.position camera);
          dy = vy (Billboard.position billboard) - vy (Camera.position camera)
      in dx * dx + dy * dy)"

fun insert_by_distance ::
  "number \<times> Billboard \<Rightarrow> (number \<times> Billboard) list \<Rightarrow> (number \<times> Billboard) list"
where
  "insert_by_distance a [] = [a]"
| "insert_by_distance a (c # cs) =
     (if Fin 0 < fst c - fst a then c # insert_by_distance a cs else a # c # cs)"

definition sort_by_distance :: "(number \<times> Billboard) list \<Rightarrow> (number \<times> Billboard) list" where
  "sort_by_distance xs = foldr insert_by_distance xs []"

definition sorted_billboards :: "Camera \<Rightarrow> Billboard list \<Rightarrow> Billboard list" where
  "sorted_billboards camera billboards =
     map snd (sort_by_distance (map (\<lambda>bb. (billboard_distance camera bb, bb)) billboards))"

text \<open>One iteration of the billboard loop of \<open>renderBillboard\<close>.\<close>

definition renderBillboard_one ::
  "Light option \<Rightarrow> Fog option \<Rightarrow> Camera \<Rightarrow> number \<Rightarrow> Raycaster \<Rightarrow> Billboard \<Rightarrow>
   Raycaster result"
where
  "renderBillboard_one light fog camera invDet rc billboard =
     (let W = num (Raycaster.width rc);
          H = num (Raycaster.height rc);
          Xcb = vx (Billboard.position billboard) - vx (Camera.position camera);
          Ycb = vy (Billboard.position billboard) - vy (Camera.position camera);
          BXc = invDet * (vy (Camera_direction camera) * Xcb - vx (Camera_direction camera) * Ycb);
          BYc = invDet * (- vy (Camera_plane camera) * Xcb + vx (Camera_plane camera) * Ycb)
      in if BYc \<le> Fin 0 then Some (Inr rc)
         else
           (let texture = selectTextureByCamera billboard camera;
                drawOffsetY = Math_floor (- vOffset billboard / BYc * H);
                BXs = Math_floor (W / Fin 2 * (Fin 1 + BXc / BYc));
                billboardHeight = \<bar>Math_floor (H / BYc)\<bar> * vy (scale billboard);
                drawStartY = Math_max (Math_floor ((H - billboardHeight) / Fin 2 + drawOffsetY))
                               (Fin 0);
                drawEndY = Math_min (Math_floor ((H + billboardHeight) / Fin 2 + drawOffsetY)) H;
                billboardWidth = \<bar>Math_floor (H / BYc)\<bar> * vx (scale billboard);
                drawStartX = Math_max (Math_floor (BXs - billboardWidth / Fin 2)) (Fin 0);
                drawEndX = Math_min (Math_floor (BXs + billboardWidth / Fin 2)) W;
                lightColor =
                  (case light of
                     None \<Rightarrow> None
                   | Some l \<Rightarrow>
                       (let dx = vx (Camera.position camera) - vx (Billboard.position billboard);
                            dy = vy (Camera.position camera) - vy (Billboard.position billboard);
                            len = Math_sqrt (dx * dx + dy * dy);
                            nx = dx / len;
                            ny = dy / len
                        in Some (lit_color l
                             (Math_max (Fin 0)
                                (vx (Light.direction l) * nx + vy (Light.direction l) * ny)))))
            in case for_range drawStartX drawEndX of
                 None \<Rightarrow> None
               | Some xs \<Rightarrow>
                   for_each
                     (\<lambda>rc' x.
                        if (case arr_get (zBuffer rc') x of
                              Some (Some z) \<Rightarrow> BYc < z | _ \<Rightarrow> False)
                        then draw_billboard_vline rc' texture x drawStartY drawEndY
                               billboardWidth billboardHeight BXs drawOffsetY
                               lightColor fog BYc
                        else Some (Inr rc'))
                     rc xs))"

definition renderBillboard ::
  "Raycaster \<Rightarrow> Billboard list \<Rightarrow> Light option \<Rightarrow> Fog option \<Rightarrow> Camera \<Rightarrow> Raycaster result"
where
  "renderBillboard rc billboards light fog camera =
     (let billboards' = sorted_billboards camera billboards;
          invDet = Fin 1 / (vx (Camera_plane camera) * vy (Camera_direction camera)
                            - vx (Camera_direction camera) * vy (Camera_plane camera))
      in for_each (renderBillboard_one light fog camera invDet) rc billboards')"


subsection \<open>Floor and ceiling\<close>

text \<open>
  The per-row light and fog terms of the shaded branch of \<open>renderFloorAndCeiling\<close>
  for one surface: the channel factors \<open>base * f\<close> and the additive terms
  \<open>(1 - f) * baseFog\<close>.  The base light is computed only when a light is given and
  the surface has a texture; \<open>f\<close> is 0 when no fog is given.
\<close>

definition plane_base_light :: "Light option \<Rightarrow> bool \<Rightarrow> number \<Rightarrow> number \<times> number \<times> number" where
  "plane_base_light light has_texture nz =
     (case light of
        Some l \<Rightarrow>
          (if has_texture then
             (let intensity = Math_max (Fin 0) (vz (Light.direction l) * nz);
                  c = lit_color l intensity
              in (rgb_r c, rgb_g c, rgb_b c))
           else (Fin 1, Fin 1, Fin 1))
      | None \<Rightarrow> (Fin 1, Fin 1, Fin 1))"

definition plane_base_fog :: "Fog option \<Rightarrow> number \<times> number \<times> number" where
  "plane_base_fog fog =
     (case fog of
        Some fg \<Rightarrow> (rgb_r (Fog.color fg) * Fin 255, rgb_g (Fog.color fg) * Fin 255,
                    rgb_b (Fog.color fg) * Fin 255)
      | None \<Rightarrow> (Fin 0, Fin 0, Fin 0))"

definition plane_fog_factor :: "Fog option \<Rightarrow> number \<Rightarrow> number" where
  "plane_fog_factor fog rowDistance =
     (case fog of
        None \<Rightarrow> Fin 0
      | Some fg \<Rightarrow>
          Math_max (Fin 0) (Math_min (Fin 1) ((far fg - rowDistance) / (far fg - near fg))))"

definition plane_shade_terms ::
  "number \<times> number \<times> number \<Rightarrow> number \<times> number \<times> number \<Rightarrow> number \<Rightarrow>
   (number \<times> number \<times> number) \<times> (number \<times> number \<times> number)"
where
  "plane_shade_terms baseLight baseFog f =
     (case (baseLight, baseFog) of ((lr, lg, lb), (bfR, bfG, bfB)) \<Rightarrow>
        ((lr * f, lg * f, lb * f), ((Fin 1 - f) * bfR, (Fin 1 - f) * bfG, (Fin 1 - f) * bfB)))"

text \<open>
  The four stores for one surface at one pixel: the texel at \<open>(u, v)\<close> of the texture
  goes to the frame-buffer offset \<open>i\<close>, unshaded (\<open>None\<close>) or shaded.
\<close>

definition plane_pixel ::
  "Texture \<Rightarrow> number \<Rightarrow> number \<Rightarrow> number \<Rightarrow>
   ((number \<times> number \<times> number) \<times> (number \<times> number \<times> number)) option \<Rightarrow>
   nat list \<Rightarrow> nat list"
where
  "plane_pixel texture u v i shading buf =
     (let tx = Math_floor (num (Texture.width texture) * u);
          ty = Math_floor (num (Texture.height texture) * v);
          j = (num (Texture.width texture) * ty + tx) * Fin 4
      in case shading of
           None \<Rightarrow>
             (let buf0 = rgba_set buf (i + Fin 0) (byte_num (arr_get (data texture) (j + Fin 0)));
                  buf1 = rgba_set buf0 (i + Fin 1) (byte_num (arr_get (data texture) (j + Fin 1)));
                  buf2 = rgba_set buf1 (i + Fin 2) (byte_num (arr_get (data texture) (j + Fin 2)))
              in rgba_set buf2 (i + Fin 3) (byte_num (arr_get (data texture) (j + Fin 3))))
         | Some ((lightR, lightG, lightB), (fogR, fogG, fogB)) \<Rightarrow>
             (let buf0 = rgba_set buf (i + Fin 0)
                           (fogR + byte_num (arr_get (data texture) (j + Fin 0)) * lightR);
                  buf1 = rgba_set buf0 (i + Fin 1)
                           (fogG + byte_num (arr_get (data texture) (j + Fin 1)) * lightG);
                  buf2 = rgba_set buf1 (i + Fin 2)
                           (fogB + byte_num (arr_get (data texture) (j + Fin 2)) * lightB)
              in rgba_set buf2 (i + Fin 3) (byte_num (arr_get (data texture) (j + Fin 3)))))"

text \<open>
  One iteration of the inner loop over \<open>x\<close>; the state is the frame buffer and the
  running \<open>floorPos\<close>.
\<close>

definition plane_column ::
  "Raycaster \<Rightarrow> Texture option \<Rightarrow> Texture option \<Rightarrow> nat \<Rightarrow> Vector2Like \<Rightarrow>
   ((number \<times> number \<times> number) \<times> (number \<times> number \<times> number)) option \<Rightarrow>
   ((number \<times> number \<times> number) \<times> (number \<times> number \<times> number)) option \<Rightarrow>
   nat list \<times> Vector2Like \<Rightarrow> nat \<Rightarrow> nat list \<times> Vector2Like"
where
  "plane_column rc floorTexture ceilingTexture y floorStep floorShading ceilingShading st x =
     (case st of (buf, floorPos) \<Rightarrow>
        (let W = num (Raycaster.width rc);
             H = num (Raycaster.height rc);
             cellX = Math_floor (vx floorPos);
             cellY = Math_floor (vy floorPos);
             u0 = vx floorPos - cellX;
             u = (if Fin 0 \<le> u0 then u0 else Fin 1 + u0);
             v0 = vy floorPos - cellY;
             v = (if Fin 0 \<le> v0 then v0 else Fin 1 + v0);
             buf1 = (case ceilingTexture of
                       None \<Rightarrow> buf
                     | Some t \<Rightarrow>
                         plane_pixel t u v ((W * num y + num x) * Fin 4) ceilingShading buf);
             buf2 = (case floorTexture of
                       None \<Rightarrow> buf1
                     | Some t \<Rightarrow>
                         plane_pixel t u v ((W * (H - Fin 1 - num y) + num x) * Fin 4)
                           floorShading buf1)
         in (buf2, Vec2_add floorPos floorStep)))"

text \<open>
  One iteration of the outer loop over \<open>y\<close>.  \<open>shaded\<close> tells which of the two
  copies of the loop runs: the second one when a light or a fog is given.
\<close>

definition plane_row ::
  "Raycaster \<Rightarrow> Texture option \<Rightarrow> Texture option \<Rightarrow> Light option \<Rightarrow> Fog option \<Rightarrow>
   Camera \<Rightarrow> nat list \<Rightarrow> nat \<Rightarrow> nat list"
where
  "plane_row rc floorTexture ceilingTexture light fog camera buf y =
     (let W = num (Raycaster.width rc);
          H = num (Raycaster.height rc);
          posZ = H / Fin 2;
          rayDir0 = Vec2_sub (Vec2_of (Camera_direction camera)) (Camera_plane camera);
          rayDir1 = Vec2_add (Vec2_of (Camera_direction camera)) (Camera_plane camera);
          p = \<bar>num y - H / Fin 2\<bar>;
          rowDistance = posZ / p;
          floorStep = Vec2_scale (Vec2_sub rayDir1 rayDir0) (rowDistance / W);
          floorPos = Vec2_add (Vec2_of (Camera.position camera)) (Vec2_scale rayDir0 rowDistance);
          shaded = \<not> (light = None \<and> fog = None);
          f = plane_fog_factor fog rowDistance;
          floorShading =
            (if shaded
             then Some (plane_shade_terms (plane_base_light light (floorTexture \<noteq> None) (Fin 1))
                          (plane_base_fog fog) f)
             else None);
          ceilingShading =
            (if shaded
             then Some (plane_shade_terms
                          (plane_base_light light (ceilingTexture \<noteq> None) (Fin (- 1)))
                          (plane_base_fog fog) f)
             else None)
      in fst (fold (\<lambda>x st. plane_column rc floorTexture ceilingTexture y floorStep
                               floorShading ceilingShading st x)
                   [0 ..< Raycaster.width rc] (buf, floorPos)))"

definition renderFloorAndCeiling ::
  "Raycaster \<Rightarrow> Texture option \<Rightarrow> Texture option \<Rightarrow> Light option \<Rightarrow> Fog option \<Rightarrow>
   Camera \<Rightarrow> Raycaster"
where
  "renderFloorAndCeiling rc floorTexture ceilingTexture light fog camera =
     rc\<lparr>rgba :=
       fold (\<lambda>y buf. plane_row rc floorTexture ceilingTexture light fog camera buf y)
            [y \<leftarrow> [0 ..< Raycaster.height rc]. num y < num (Raycaster.height rc) / Fin 2]
            (rgba rc)\<rparr>"

subsection \<open>render\<close>

record RaycasterRenderParam =
  param_tilemap :: "Tilemap option"
  param_textures :: "Texture list option"
  param_billboards :: "Billboard list option"
  param_floorTexture :: "Texture option"
  param_ceilingTexture :: "Texture option"
  param_light :: "Light option"
  param_fog :: "Fog option"
  param_camera :: Camera

definition render :: "Raycaster \<Rightarrow> RaycasterRenderParam \<Rightarrow> Raycaster result" where
  "render rc param =
     bind_result (Some (clear rc []))
       (\<lambda>rc1.
          bind_result
            (case (param_floorTexture param, param_ceilingTexture param) of
               (None, None) \<Rightarrow> Some (Inr rc1)
             | _ \<Rightarrow>
                 Some (Inr (renderFloorAndCeiling rc1 (param_floorTexture param)
                              (param_ceilingTexture param) (param_light param)
                              (param_fog param) (param_camera param))))
            (\<lambda>rc2.
               bind_result
                 (case (param_tilemap param, param_textures param) of
                    (Some tilemap, Some texs) \<Rightarrow>
                      renderWall rc2 tilemap texs (param_light param) (param_fog param)
                        (param_camera param)
                  | _ \<Rightarrow> Some (Inr rc2))
                 (\<lambda>rc3.
                    case param_billboards param of
                      Some billboards \<Rightarrow>
                        renderBillboard rc3 billboards (param_light param) (param_fog param)
                          (param_camera param)
                    | None \<Rightarrow> Some (Inr rc3))))"

section \<open>Well-formed inputs and example scenes\<close>








text \<open>Finite numbers and points with finite coordinates.\<close>

definition finite_number :: "number \<Rightarrow> bool" where
  "finite_number v = (case v of Fin _ \<Rightarrow> True | _ \<Rightarrow> False)"




text \<open>The tilemap of the unit tests: 6 by 6, solid border, empty inside.\<close>

definition tm6 :: Tilemap where
  "tm6 = \<lparr>Tilemap.width = 6, height = 6,
           tmap = [Fin 1, Fin 1, Fin 1, Fin 1, Fin 1, Fin 1,
                   Fin 1, Fin 0, Fin 0, Fin 0, Fin 0, Fin 1,
                   Fin 1, Fin 0, Fin 0, Fin 0, Fin 0, Fin 1,
                   Fin 1, Fin 0, Fin 0, Fin 0, Fin 0, Fin 1,
                   Fin 1, Fin 0, Fin 0, Fin 0, Fin 0, Fin 1,
                   Fin 1, Fin 1, Fin 1, Fin 1, Fin 1, Fin 1]\<rparr>"

text \<open>The smallest bordered tilemap: one empty cell surrounded by walls.\<close>

definition tm3 :: Tilemap where
  "tm3 = \<lparr>Tilemap.width = 3, height = 3,
           tmap = [Fin 1, Fin 1, Fin 1,
                   Fin 1, Fin 0, Fin 1,
                   Fin 1, Fin 1, Fin 1]\<rparr>"


text \<open>A one-texel texture, a one-pixel frame buffer and a camera in the empty cell of \<open>tm3\<close>.\<close>

definition tex1 :: Texture where
  "tex1 = \<lparr>Texture.width = 1, height = 1, data = [10, 20, 30, 255]\<rparr>"

definition fb1 :: FrameBuffer where
  "fb1 = \<lparr>Texture.width = 1, height = 1, data = [0, 0, 0, 0]\<rparr>"

definition cam3 :: Camera where
  "cam3 = new_Camera (Fin (3 / 2)) (Fin (3 / 2)) (Fin 0) (Fin 1)"

text \<open>A light with colour \<open>(0, 0, 0)\<close> and ambient colour \<open>(1, 1, 1)\<close>.\<close>

definition ambient_only :: Light where
  "ambient_only =
     \<lparr>Light.direction = \<lparr>vx = Fin 0, vy = Fin 0, vz = Fin 1\<rparr>,
      color = \<lparr>rgb_r = Fin 0, rgb_g = Fin 0, rgb_b = Fin 0\<rparr>,
      ambientColor = \<lparr>rgb_r = Fin 1, rgb_g = Fin 1, rgb_b = Fin 1\<rparr>\<rparr>"







text \<open>
  A billboard with three textures whose angle is the double \<open>1.0471975511965983\<close>
  (\<open>0x1.0c152382d7368p+0\<close>), and a camera one unit east of it.
\<close>

definition bb3 :: Billboard where
  "bb3 = \<lparr>Billboard.position = \<lparr>vx = Fin 0, vy = Fin 0\<rparr>,
           scale = \<lparr>vx = Fin 1, vy = Fin 1\<rparr>, vOffset = Fin 0,
           angle = Fin (589519812669037 / 2 ^ 49),
           textures = [tex1, tex1, tex1]\<rparr>"

definition cam_east :: Camera where
  "cam_east = new_Camera (Fin 1) (Fin 0) (Fin 0) (Fin 1)"

section \<open>Facts about numbers\<close>

lemma Fin_le_iff [simp]: "(Fin a \<le> Fin c) = (a \<le> c)"
  by (auto simp: less_eq_number_def)

lemma Fin_minus [simp]: "Fin a - Fin c = Fin (a - c)"
  by (simp add: minus_number_def)

lemma num_simps [simp]: "num n = Fin (real n)"
  by (simp add: num_def)

section \<open>Clearing the depth buffer\<close>

lemma clear_depth_loop_length:
  "length zb = w \<Longrightarrow> length (clear_depth_loop i w zb) = w"
  by (induction i w zb rule: clear_depth_loop.induct) (simp add: array_set_def)

text \<open>
  What the depth loop does: starting at index \<open>i\<close> it overwrites every second entry
  with \<open>Number.MAX_VALUE\<close> and leaves the entries in between as they were.
\<close>

lemma clear_depth_loop_nth:
  "length zb = w \<Longrightarrow> k < w \<Longrightarrow>
   clear_depth_loop i w zb ! k =
     (if i \<le> k \<and> even (k - i) then Some Number_MAX_VALUE else zb ! k)"
proof (induction i w zb rule: clear_depth_loop.induct)
  case (1 i w zb)
  show ?case
  proof (cases "i < w")
    case False
    with "1.prems" show ?thesis by simp
  next
    case True
    have len: "length (array_set zb i Number_MAX_VALUE) = w"
      using True "1.prems" by (simp add: array_set_def)
    have "clear_depth_loop i w zb ! k
            = clear_depth_loop (i + 1 + 1) w (array_set zb i Number_MAX_VALUE) ! k"
      using True by simp
    also have "\<dots> = (if i + 1 + 1 \<le> k \<and> even (k - (i + 1 + 1)) then Some Number_MAX_VALUE
                      else array_set zb i Number_MAX_VALUE ! k)"
      using "1.IH"[OF True len "1.prems"(2)] .
    also have "\<dots> = (if i \<le> k \<and> even (k - i) then Some Number_MAX_VALUE else zb ! k)"
    proof -
      consider "k < i" | "k = i" | "k = i + 1" | "i + 2 \<le> k" by linarith
      then show ?thesis
        using True "1.prems" by cases (auto simp: array_set_def nth_list_update)
    qed
    finally show ?thesis .
  qed
qed

lemma Number_MAX_VALUE_finite: "Number_MAX_VALUE \<noteq> PInf"
  by (simp add: Number_MAX_VALUE_def)

text \<open>
  C1.  The claim: after \<open>clear()\<close> every entry of the z-buffer is \<open>+\<infinity>\<close>.  On a fresh
  renderer of width 2 the call leaves column 1 unassigned (the loop index is
  incremented twice per iteration), and column 0 holds \<open>Number.MAX_VALUE\<close>, a finite
  number.
\<close>

theorem clear_skips_odd_columns:
  "clear (new_Raycaster \<lparr>Texture.width = 2, height = 1, data = [0, 0, 0, 0, 0, 0, 0, 0]\<rparr>) [] =
     Inr \<lparr>Raycaster.width = 2, height = 1, rgba = [0, 0, 0, 0, 0, 0, 0, 0],
          zBuffer = [Some Number_MAX_VALUE, None]\<rparr>"
  by (simp add: clear_def clear_target_def new_Raycaster_def array_set_def numeral_2_eq_2)

section \<open>Camera\<close>

lemma Camera_rotateTo_angle:
  "Camera_angle (Camera_rotateTo cam theta) = Camera_angle cam"
  by (simp add: Camera_rotateTo_def Camera_angle_def Let_def)

lemma Camera_rotateTo_direction:
  "Camera_direction (Camera_rotateTo cam theta) = Vec2_rotate (Vec2 (Fin 0) (Fin (- 1))) theta"
  by (simp add: Camera_rotateTo_def Camera_direction_def Let_def)

lemma Camera_rotateTo_plane:
  "Camera_plane (Camera_rotateTo cam theta)
     = Vec2_rotate (Vec2 (Camera_aspectRatio cam / Fin 2) (Fin 0)) theta"
  by (simp add: Camera_rotateTo_def Camera_plane_def Camera_aspectRatio_def Let_def)

text \<open>The sibling \<open>rotate\<close> does update the stored angle.\<close>

lemma Camera_rotate_angle:
  "Camera_angle (Camera_rotate cam a) = Camera_angle cam + a"
  by (simp add: Camera_rotate_def Camera_angle_def Let_def)

text \<open>
  C3.  The claim: after \<open>rotateTo(\<theta>)\<close> the \<open>angle\<close> accessor returns \<open>\<theta>\<close>.  The method
  rebuilds \<open>_dir\<close> and \<open>_plane\<close> but does not assign \<open>_angle\<close>: a camera constructed
  with angle 0 and turned to \<open>\<pi>/2\<close> faces \<open>(1, 0)\<close> while its accessor still returns 0.
\<close>

theorem rotateTo_keeps_stale_angle:
  "Camera_angle (Camera_rotateTo (new_Camera (Fin 0) (Fin 0) (Fin 0) (Fin 1)) (Fin (pi / 2))) = Fin 0
   \<and> Camera_direction (Camera_rotateTo (new_Camera (Fin 0) (Fin 0) (Fin 0) (Fin 1)) (Fin (pi / 2)))
       = \<lparr>vx = Fin 1, vy = Fin 0\<rparr>"
  by (simp add: Camera_rotateTo_def new_Camera_def Camera_angle_def Camera_direction_def
        Vec2_rotate_def Vec2_def Let_def)

section \<open>The grid traversal\<close>

lemma dda_loop_unfold:
  "dda_loop cells mapWidth step delta st =
     (if isl (dda_step cells mapWidth step delta st)
      then Some (projl (dda_step cells mapWidth step delta st))
      else dda_loop cells mapWidth step delta (projr (dda_step cells mapWidth step delta st)))"
  by (subst dda_loop.simps) (simp split: sum.splits)

lemma dda_loop_side:
  assumes "dda_loop cells mapWidth step delta st = Some res"
  shows "snd (snd res) = 0 \<or> snd (snd res) = 1"
proof (rule dda_loop.raw_induct
         [where P = "\<lambda>_ _ _ _ _ r. snd (snd r) = 0 \<or> snd (snd r) = 1", OF _ assms])
  fix f :: "number list \<Rightarrow> number \<Rightarrow> number \<times> number \<Rightarrow> number \<times> number \<Rightarrow>
            dda_state \<Rightarrow> (number \<times> number \<times> nat) option"
  fix cells mapWidth step delta st r
  assume IH: "\<And>c m s d st' r'. f c m s d st' = Some r' \<Longrightarrow> snd (snd r') = 0 \<or> snd (snd r') = 1"
  assume body: "(case dda_step cells mapWidth step delta st of
                   Inl res \<Rightarrow> Some res
                 | Inr st' \<Rightarrow> f cells mapWidth step delta st') = Some r"
  show "snd (snd r) = 0 \<or> snd (snd r) = 1"
    using body IH by (auto split: prod.splits if_splits sum.splits simp: Let_def dda_step_def)
qed

text \<open>
  C4.  Whenever the loop of \<open>rayTilemapIntersection\<close> ends, the result is determined by
  the cell \<open>(mx, my)\<close> and the side reached: the perpendicular distance is
  \<open>(mx - sx + (1 - stepX) / 2) / dx\<close> on side 0 and the same over \<open>y\<close> on side 1, the hit
  position is \<open>start + t * dir\<close>, and the normal is \<open>(-stepX, 0)\<close> on side 0 and
  \<open>(0, -stepY)\<close> on side 1, where \<open>stepX\<close>, \<open>stepY\<close> are \<open>1\<close> for a non-negative direction
  component and \<open>-1\<close> otherwise.
\<close>

theorem rayTilemapIntersection_result:
  assumes "rayTilemapIntersection ray tilemap = Some res"
  shows "let sx = vx (startPosition ray);
             sy = vy (startPosition ray);
             dx = vx (Ray.direction ray);
             dy = vy (Ray.direction ray);
             stepX = (if Fin 0 \<le> dx then Fin 1 else Fin (- 1));
             stepY = (if Fin 0 \<le> dy then Fin 1 else Fin (- 1));
             mx = vx (mapPosition res);
             my = vy (mapPosition res);
             t = perpendicularDistance res
         in (side res = 0 \<or> side res = 1)
            \<and> t = (if side res = 0 then (mx - sx + (Fin 1 - stepX) / Fin 2) / dx
                   else (my - sy + (Fin 1 - stepY) / Fin 2) / dy)
            \<and> hitPosition res = \<lparr>vx = sx + t * dx, vy = sy + t * dy\<rparr>
            \<and> RayTilemapIntersectionResult.normal res =
                (if side res = 0 then \<lparr>vx = - stepX, vy = Fin 0\<rparr>
                 else \<lparr>vx = Fin 0, vy = - stepY\<rparr>)"
proof -
  from assms obtain map_pos_x map_pos_y side_hit where
    loop: "dda_loop (tmap tilemap) (num (Tilemap.width tilemap))
             (if Fin 0 \<le> vx (Ray.direction ray) then Fin 1 else Fin (- 1),
              if Fin 0 \<le> vy (Ray.direction ray) then Fin 1 else Fin (- 1))
             (\<bar>Fin 1 / vx (Ray.direction ray)\<bar>, \<bar>Fin 1 / vy (Ray.direction ray)\<bar>)
             ((if Fin 0 \<le> vx (Ray.direction ray)
               then Math_floor (vx (startPosition ray)) + Fin 1 - vx (startPosition ray)
               else vx (startPosition ray) - Math_floor (vx (startPosition ray)))
                * \<bar>Fin 1 / vx (Ray.direction ray)\<bar>,
              (if Fin 0 \<le> vy (Ray.direction ray)
               then Math_floor (vy (startPosition ray)) + Fin 1 - vy (startPosition ray)
               else vy (startPosition ray) - Math_floor (vy (startPosition ray)))
                * \<bar>Fin 1 / vy (Ray.direction ray)\<bar>,
              Math_floor (vx (startPosition ray)), Math_floor (vy (startPosition ray)))
           = Some (map_pos_x, map_pos_y, side_hit)"
    by (auto simp: rayTilemapIntersection_def Let_def split: option.splits)
  from dda_loop_side[OF loop] have sd: "side_hit = 0 \<or> side_hit = 1" by simp
  from assms loop sd show ?thesis
    by (auto simp: rayTilemapIntersection_def Let_def)
qed

text \<open>The first scenario of the unit tests: an axis-aligned ray in the 6 by 6 map.\<close>

lemma S1_eval:
  "rayTilemapIntersection
     \<lparr>startPosition = \<lparr>vx = Fin (5 / 2), vy = Fin (5 / 2)\<rparr>,
      direction = \<lparr>vx = Fin 1, vy = Fin 0\<rparr>\<rparr> tm6
   = Some \<lparr>mapPosition = \<lparr>vx = Fin 5, vy = Fin 2\<rparr>, side = 0,
           hitPosition = \<lparr>vx = Fin 5, vy = Fin (5 / 2)\<rparr>,
           normal = \<lparr>vx = Fin (- 1), vy = Fin 0\<rparr>,
           perpendicularDistance = Fin (5 / 2)\<rparr>"
  by (simp add: rayTilemapIntersection_def tm6_def Let_def dda_loop_unfold dda_step_def)

theorem rayTilemapIntersection_result_witness:
  "rayTilemapIntersection
     \<lparr>startPosition = \<lparr>vx = Fin (5 / 2), vy = Fin (5 / 2)\<rparr>,
      direction = \<lparr>vx = Fin 1, vy = Fin 0\<rparr>\<rparr> tm6
   = Some \<lparr>mapPosition = \<lparr>vx = Fin 5, vy = Fin 2\<rparr>, side = 0,
           hitPosition = \<lparr>vx = Fin 5, vy = Fin (5 / 2)\<rparr>,
           normal = \<lparr>vx = Fin (- 1), vy = Fin 0\<rparr>,
           perpendicularDistance = Fin (5 / 2)\<rparr>
   \<and> Fin (5 / 2) = (Fin 5 - Fin (5 / 2) + (Fin 1 - Fin 1) / Fin 2) / Fin 1
   \<and> \<lparr>vx = Fin 5, vy = Fin (5 / 2)\<rparr>
       = \<lparr>vx = Fin (5 / 2) + Fin (5 / 2) * Fin 1, vy = Fin (5 / 2) + Fin (5 / 2) * Fin 0\<rparr>
   \<and> \<lparr>vx = Fin (- 1), vy = Fin 0\<rparr> = \<lparr>vx = - Fin 1, vy = Fin 0\<rparr>"
  using rayTilemapIntersection_result[OF S1_eval] S1_eval
  by (simp add: Let_def)

text \<open>
  When the \<open>x\<close> step is infinite or undefined, the loop never advances along \<open>x\<close>.
\<close>

lemma PInf_not_less: "\<not> PInf < v"
  by (cases v) simp_all

lemma dda_loop_never_x:
  assumes "dda_loop cells mapWidth step delta st = Some res"
    and "fst delta = PInf \<or> fst delta = NaN" and "fst st = PInf \<or> fst st = NaN"
  shows "snd (snd res) = 1"
proof -
  have "(fst delta = PInf \<or> fst delta = NaN) \<and> (fst st = PInf \<or> fst st = NaN)
          \<longrightarrow> snd (snd res) = 1"
  proof (rule dda_loop.raw_induct
           [where P = "\<lambda>_ _ _ d s r. (fst d = PInf \<or> fst d = NaN) \<and> (fst s = PInf \<or> fst s = NaN)
                                      \<longrightarrow> snd (snd r) = 1", OF _ assms(1)])
    fix f :: "number list \<Rightarrow> number \<Rightarrow> number \<times> number \<Rightarrow> number \<times> number \<Rightarrow>
              dda_state \<Rightarrow> (number \<times> number \<times> nat) option"
    fix cells mapWidth step delta st r
    assume IH: "\<And>c m s d st' r'. f c m s d st' = Some r' \<Longrightarrow>
                  (fst d = PInf \<or> fst d = NaN) \<and> (fst st' = PInf \<or> fst st' = NaN)
                  \<longrightarrow> snd (snd r') = 1"
    assume body: "(case dda_step cells mapWidth step delta st of
                     Inl res \<Rightarrow> Some res
                   | Inr st' \<Rightarrow> f cells mapWidth step delta st') = Some r"
    show "(fst delta = PInf \<or> fst delta = NaN) \<and> (fst st = PInf \<or> fst st = NaN)
            \<longrightarrow> snd (snd r) = 1"
    proof
      assume inv: "(fst delta = PInf \<or> fst delta = NaN) \<and> (fst st = PInf \<or> fst st = NaN)"
      obtain sdx sdy mx my where st: "st = (sdx, sdy, mx, my)" by (cases st) auto
      from inv st have nolt: "\<not> sdx < sdy" by (auto simp: PInf_not_less)
      show "snd (snd r) = 1"
      proof (cases "dda_step cells mapWidth step delta st")
        case (Inl a)
        then show ?thesis using body st nolt
          by (auto simp: dda_step_def Let_def split: if_splits)
      next
        case (Inr st')
        then have "fst st' = sdx" using st nolt
          by (auto simp: dda_step_def Let_def split: if_splits)
        then have "(fst delta = PInf \<or> fst delta = NaN) \<and> (fst st' = PInf \<or> fst st' = NaN)"
          using inv st by simp
        moreover have "f cells mapWidth step delta st' = Some r" using body Inr by simp
        ultimately show ?thesis using IH by blast
      qed
    qed
  qed
  then show ?thesis using assms(2,3) by blast
qed

text \<open>
  For a ray with finite start and direction, a hit on side 0 has a non-zero \<open>x\<close>
  direction, so the quotient of the perpendicular distance is a quotient of reals.
\<close>

lemma rayTilemapIntersection_side0_finite:
  assumes "rayTilemapIntersection ray tilemap = Some res"
    and "vx (startPosition ray) = Fin sx" and "vx (Ray.direction ray) = Fin dx"
    and "side res = 0"
  shows "dx \<noteq> 0"
proof
  assume z: "dx = 0"
  from assms(1) obtain r where
    loop: "dda_loop (tmap tilemap) (num (Tilemap.width tilemap))
             (if Fin 0 \<le> vx (Ray.direction ray) then Fin 1 else Fin (- 1),
              if Fin 0 \<le> vy (Ray.direction ray) then Fin 1 else Fin (- 1))
             (\<bar>Fin 1 / vx (Ray.direction ray)\<bar>, \<bar>Fin 1 / vy (Ray.direction ray)\<bar>)
             ((if Fin 0 \<le> vx (Ray.direction ray)
               then Math_floor (vx (startPosition ray)) + Fin 1 - vx (startPosition ray)
               else vx (startPosition ray) - Math_floor (vx (startPosition ray)))
                * \<bar>Fin 1 / vx (Ray.direction ray)\<bar>,
              (if Fin 0 \<le> vy (Ray.direction ray)
               then Math_floor (vy (startPosition ray)) + Fin 1 - vy (startPosition ray)
               else vy (startPosition ray) - Math_floor (vy (startPosition ray)))
                * \<bar>Fin 1 / vy (Ray.direction ray)\<bar>,
              Math_floor (vx (startPosition ray)), Math_floor (vy (startPosition ray)))
           = Some r"
    and sd: "side res = snd (snd r)"
    by (auto simp: rayTilemapIntersection_def Let_def split: option.splits prod.splits)
  have pos: "0 < real_of_int \<lfloor>sx\<rfloor> + 1 - sx" by linarith
  have "snd (snd r) = 1"
    by (rule dda_loop_never_x[OF loop]) (use assms(2,3) z pos in simp_all)
  then show False using sd assms(4) by simp
qed












section \<open>Ceiling, floor or wall\<close>






section \<open>The wall stage and the depth buffer\<close>














section \<open>Directional textures\<close>










lemma cam3_fields:
  "cam3 = \<lparr>Camera.position = \<lparr>vx = Fin (3 / 2), vy = Fin (3 / 2)\<rparr>, p_angle = Fin 0,
           p_dir = \<lparr>vx = Fin 0, vy = Fin (- 1)\<rparr>, p_plane = \<lparr>vx = Fin (1 / 2), vy = Fin 0\<rparr>,
           p_aspectRatio = Fin 1\<rparr>"
  by (simp add: cam3_def new_Camera_def Camera_rotateTo_def Vec2_rotate_def Vec2_def
        Camera_aspectRatio_def)


section \<open>A one-pixel scene\<close>

text \<open>
  The camera stands in the empty cell of \<open>tm3\<close> and looks at the wall cell \<open>(1, 0)\<close>,
  half a unit away; the frame has one pixel and the wall texture one texel.
\<close>

lemma column_ray_cam3: 
  "column_ray cam3 (Suc 0) 0 = \<lparr>startPosition = \<lparr>vx = Fin (3 / 2), vy = Fin (3 / 2)\<rparr>,
      direction = \<lparr>vx = Fin (- (1 / 2)), vy = Fin (- 1)\<rparr>\<rparr>"
  by (simp add: column_ray_def cam3_fields Camera_direction_def Camera_plane_def Let_def)

lemma cam3_hit:
  "rayTilemapIntersection
     \<lparr>startPosition = \<lparr>vx = Fin (3 / 2), vy = Fin (3 / 2)\<rparr>,
      direction = \<lparr>vx = Fin (- (1 / 2)), vy = Fin (- 1)\<rparr>\<rparr> tm3
   = Some \<lparr>mapPosition = \<lparr>vx = Fin 1, vy = Fin 0\<rparr>, side = 1,
           hitPosition = \<lparr>vx = Fin (5 / 4), vy = Fin 1\<rparr>,
           normal = \<lparr>vx = Fin 0, vy = Fin 1\<rparr>,
           perpendicularDistance = Fin (1 / 2)\<rparr>"
  by (simp add: rayTilemapIntersection_def tm3_def Let_def dda_loop_unfold dda_step_def)

lemma wall_column_lit:
  "renderWall_column tm3 [tex1] (Some ambient_only) None cam3
     \<lparr>Raycaster.width = Suc 0, height = Suc 0, rgba = [0, 0, 0, 0], zBuffer = zb\<rparr> 0
   = Some (Inr \<lparr>Raycaster.width = 1, height = 1, rgba = [11, 21, 31, 255],
                zBuffer = array_set zb 0 (Fin (1 / 2))\<rparr>)"
  apply (simp add: renderWall_column_def column_ray_cam3 cam3_hit)
  apply (simp add: tm3_def tex1_def ambient_only_def Let_def lit_color_def Math_max_def
      Math_min_def bitor0_def trunc_def draw_wall_vline_def for_range_def wall_shade_terms_def
      wall_pixel_shaded_def byte_num_def round_half_even_def)
  done


lemma clear_fb1:
  "clear (new_Raycaster fb1) [] =
     Inr \<lparr>Raycaster.width = 1, height = 1, rgba = [0, 0, 0, 0], zBuffer = [Some Number_MAX_VALUE]\<rparr>"
  by (simp add: clear_def clear_target_def new_Raycaster_def fb1_def array_set_def)

lemma floor_lit:
  "renderFloorAndCeiling
     \<lparr>Raycaster.width = Suc 0, height = Suc 0, rgba = [0, 0, 0, 0], zBuffer = zb\<rparr>
     (Some tex1) None (Some ambient_only) None cam3
   = \<lparr>Raycaster.width = 1, height = 1, rgba = [0, 0, 0, 255], zBuffer = zb\<rparr>"
  apply (simp add: renderFloorAndCeiling_def plane_row_def cam3_fields Camera_direction_def Camera_plane_def
     Vec2_of_def Vec2_sub_def Vec2_add_def Vec2_scale_def Let_def)
  apply (simp add: plane_column_def plane_pixel_def plane_fog_factor_def plane_shade_terms_def plane_base_light_def
     plane_base_fog_def tex1_def ambient_only_def lit_color_def Math_max_def byte_num_def Let_def Vec2_add_def
     round_half_even_def)
  done




section \<open>Shading\<close>

text \<open>
  The additive and multiplicative terms of the three stages for a light of colour 0 and
  ambient colour 1 and no fog.  The billboard stage multiplies by 1 and adds 0; the
  wall stage adds 1; the floor and ceiling stage multiplies by the fog factor, which
  is 0 without a fog.
\<close>

lemma wall_shade_terms_ambient:
  "wall_shade_terms (Some \<lparr>rgb_r = Fin 1, rgb_g = Fin 1, rgb_b = Fin 1\<rparr>) None d
     = ((Fin 1, Fin 1, Fin 1), (Fin 1, Fin 1, Fin 1))"
  by (simp add: wall_shade_terms_def)

lemma billboard_shade_terms_ambient:
  "billboard_shade_terms (Some \<lparr>rgb_r = Fin 1, rgb_g = Fin 1, rgb_b = Fin 1\<rparr>) None d
     = ((Fin 1, Fin 1, Fin 1), (Fin 0, Fin 0, Fin 0))"
  by (simp add: billboard_shade_terms_def)

lemma plane_shade_terms_no_fog:
  "plane_shade_terms (Fin 1, Fin 1, Fin 1) (plane_base_fog None) (plane_fog_factor None d)
     = ((Fin 0, Fin 0, Fin 0), (Fin 0, Fin 0, Fin 0))"
  by (simp add: plane_shade_terms_def plane_base_fog_def plane_fog_factor_def)

text \<open>
  The terms for a fog with \<open>near = far = 0\<close>, no light and a positive distance: the
  texel is multiplied by 0 and the fog colour times 255 is added, in all three stages.
\<close>

lemma wall_shade_terms_fog_zero_range:
  assumes "0 < d" "near fg = Fin 0" "far fg = Fin 0"
  shows "wall_shade_terms None (Some fg) (Fin d)
           = ((Fin 0, Fin 0, Fin 0),
              (rgb_r (Fog.color fg) * Fin 1 * Fin 255, rgb_g (Fog.color fg) * Fin 1 * Fin 255,
               rgb_b (Fog.color fg) * Fin 1 * Fin 255))"
  using assms by (simp add: wall_shade_terms_def Math_min_def Math_max_def Let_def)

lemma billboard_shade_terms_fog_zero_range:
  assumes "0 < d" "near fg = Fin 0" "far fg = Fin 0"
  shows "billboard_shade_terms None (Some fg) (Fin d)
           = ((Fin 0, Fin 0, Fin 0),
              (rgb_r (Fog.color fg) * Fin 1 * Fin 255, rgb_g (Fog.color fg) * Fin 1 * Fin 255,
               rgb_b (Fog.color fg) * Fin 1 * Fin 255))"
  using assms by (simp add: billboard_shade_terms_def Math_min_def Math_max_def Let_def)

lemma plane_shade_terms_fog_zero_range:
  assumes "0 < d" "near fg = Fin 0" "far fg = Fin 0"
  shows "plane_shade_terms (Fin 1, Fin 1, Fin 1) (plane_base_fog (Some fg))
           (plane_fog_factor (Some fg) (Fin d))
           = ((Fin 0, Fin 0, Fin 0),
              (Fin 1 * (rgb_r (Fog.color fg) * Fin 255), Fin 1 * (rgb_g (Fog.color fg) * Fin 255),
               Fin 1 * (rgb_b (Fog.color fg) * Fin 255)))"
  using assms
  by (simp add: plane_shade_terms_def plane_base_fog_def plane_fog_factor_def
        Math_min_def Math_max_def)

lemma render_walls_lit:
  "render (new_Raycaster fb1)
        \<lparr>param_tilemap = Some tm3, param_textures = Some [tex1], param_billboards = None,
         param_floorTexture = None, param_ceilingTexture = None,
         param_light = Some ambient_only, param_fog = None, param_camera = cam3\<rparr>
      = Some (Inr \<lparr>Raycaster.width = 1, height = 1, rgba = [11, 21, 31, 255],
                   zBuffer = [Some (Fin (1 / 2))]\<rparr>)"
  by (simp add: render_def clear_fb1 bind_result_def renderWall_def wall_column_lit array_set_def)

lemma render_floor_lit:
  "render (new_Raycaster fb1)
        \<lparr>param_tilemap = None, param_textures = None, param_billboards = None,
         param_floorTexture = Some tex1, param_ceilingTexture = None,
         param_light = Some ambient_only, param_fog = None, param_camera = cam3\<rparr>
      = Some (Inr \<lparr>Raycaster.width = 1, height = 1, rgba = [0, 0, 0, 255],
                   zBuffer = [Some Number_MAX_VALUE]\<rparr>)"
  by (simp add: render_def clear_fb1 bind_result_def floor_lit)

text \<open>
  C2.  The claim: with light colour 0, ambient colour 1 and no fog every pixel written
  equals the texel.  In the one-pixel scene the wall stage writes the texel plus one
  in each colour channel, and the floor stage writes black.
\<close>

theorem render_ambient_light_changes_texels:
  "data tex1 = [10, 20, 30, 255]
   \<and> render (new_Raycaster fb1)
        \<lparr>param_tilemap = Some tm3, param_textures = Some [tex1], param_billboards = None,
         param_floorTexture = None, param_ceilingTexture = None,
         param_light = Some ambient_only, param_fog = None, param_camera = cam3\<rparr>
      = Some (Inr \<lparr>Raycaster.width = 1, height = 1, rgba = [11, 21, 31, 255],
                   zBuffer = [Some (Fin (1 / 2))]\<rparr>)
   \<and> render (new_Raycaster fb1)
        \<lparr>param_tilemap = None, param_textures = None, param_billboards = None,
         param_floorTexture = Some tex1, param_ceilingTexture = None,
         param_light = Some ambient_only, param_fog = None, param_camera = cam3\<rparr>
      = Some (Inr \<lparr>Raycaster.width = 1, height = 1, rgba = [0, 0, 0, 255],
                   zBuffer = [Some Number_MAX_VALUE]\<rparr>)"
  using render_walls_lit render_floor_lit by (simp add: tex1_def)

section \<open>Billboard order\<close>


lemma insort_key_finite:
  "finite_number (fst a) \<Longrightarrow> \<forall>c \<in> set cs. finite_number (fst c) \<Longrightarrow>
   \<forall>c \<in> set (insort_key f a cs). finite_number (fst c)"
  by (simp add: set_insort_key)





















section \<open>The texture index in double precision\<close>

lemma selectTextureIndex_unrounded:
  "selectTextureIndex billboard camera
     = selectTextureIndex_rounded (\<lambda>v. v) Math_PI billboard camera"
  by (simp add: selectTextureIndex_def selectTextureIndex_rounded_def)

lemma binade:
  "0 < x \<Longrightarrow> 2 powr of_int k \<le> x \<Longrightarrow> x < 2 powr (of_int k + 1) \<Longrightarrow> \<lfloor>log 2 x\<rfloor> = k"
  by (simp add: floor_log_eq_powr_iff)

lemma b_TAU: "binary64 (Fin (884279719003555 / 140737488355328)) = Fin (884279719003555 / 140737488355328)"
proof -
  have "\<lfloor>log 2 (884279719003555 / 140737488355328 :: real)\<rfloor> = 2"
    by (rule binade) simp_all
  then show ?thesis
    by (simp add: binary64_def Let_def round_half_even_def powr_neg_numeral)
qed


lemma b_r: "binary64 (Fin (884279719003555 / 422212465065984)) = Fin (4716158501352293 / 2251799813685248)"
proof -
  have "\<lfloor>log 2 (884279719003555 / 422212465065984 :: real)\<rfloor> = 1"
    by (rule binade) simp_all
  then show ?thesis
    by (simp add: binary64_def Let_def round_half_even_def powr_neg_numeral)
qed

lemma b_half_r: "binary64 (Fin (4716158501352293 / 4503599627370496)) = Fin (4716158501352293 / 4503599627370496)"
proof -
  have "\<lfloor>log 2 (4716158501352293 / 4503599627370496 :: real)\<rfloor> = 0"
    by (rule binade) simp_all
  then show ?thesis
    by (simp add: binary64_def Let_def round_half_even_def powr_neg_numeral)
qed

lemma b_one: "binary64 (Fin 1) = Fin 1"
  by (simp add: binary64_def Let_def round_half_even_def powr_neg_numeral)

lemma b_zero: "binary64 (Fin 0) = Fin 0"
  by (simp add: binary64_def)

lemma b_diff: "binary64 (Fin (3 / 4503599627370496)) = Fin (3 / 4503599627370496)"
proof -
  have "\<lfloor>log 2 (3 / 4503599627370496 :: real)\<rfloor> = - 51"
    by (rule binade) (simp_all add: powr_neg_numeral)
  then show ?thesis
    by (simp add: binary64_def Let_def round_half_even_def powr_neg_numeral)
qed

lemma b_neg_diff: "binary64 (Fin (- (3 / 4503599627370496))) = Fin (- (3 / 4503599627370496))"
proof -
  have "\<lfloor>log 2 (3 / 4503599627370496 :: real)\<rfloor> = - 51"
    by (rule binade) (simp_all add: powr_neg_numeral)
  then show ?thesis
    by (simp add: binary64_def Let_def round_half_even_def powr_neg_numeral)
qed

lemma b_sum: "binary64 (Fin (28296951008113757 / 4503599627370496)) = Fin (7074237752028439 / 1125899906842624)"
proof -
  have "\<lfloor>log 2 (28296951008113757 / 4503599627370496 :: real)\<rfloor> = 2"
    by (rule binade) simp_all
  then show ?thesis
    by (simp add: binary64_def Let_def round_half_even_def powr_neg_numeral)
qed

lemma b_quot: "binary64 (Fin (14148475504056878 / 4716158501352293)) = Fin 3"
proof -
  have "\<lfloor>log 2 (14148475504056878 / 4716158501352293 :: real)\<rfloor> = 1"
    by (rule binade) simp_all
  then show ?thesis
    by (simp add: binary64_def Let_def round_half_even_def powr_neg_numeral)
qed

lemma cam_east_position: "Camera.position cam_east = \<lparr>vx = Fin 1, vy = Fin 0\<rparr>"
  by (simp add: cam_east_def new_Camera_def Camera_rotateTo_def Vec2_def)

text \<open>
  C10.  The claim: the index is always below the number of textures.  In exact
  arithmetic it is (\<open>selectTextureIndex_exact_bound\<close>).  In binary64 the quotient
  \<open>angle / angleRange\<close> of an angle just below \<open>2\<pi>\<close> can round up to \<open>N\<close>: for three
  textures, the billboard angle \<open>1.0471975511965983\<close> and the camera due east, the index
  is 3 and \<open>textures[3]\<close> is \<open>undefined\<close>.
\<close>

theorem selectTextureByCamera_binary64_index:
  "length (textures bb3) = 3
   \<and> selectTextureIndex_rounded binary64 Math_PI_binary64 bb3 cam_east = Fin 3
   \<and> arr_get (textures bb3) (Fin 3) = None"
  by (simp add: selectTextureIndex_rounded_def Math_PI_binary64_def bb3_def cam_east_position
        Let_def b_TAU b_r b_half_r b_one b_zero b_diff b_neg_diff b_sum b_quot trunc_def
        atan2_real_def)

end
